theory Spec2Isabelle
  imports Complex_Main
begin

section \<open>JavaScript values and numbers\<close>

text \<open>
  The accessory class \<open>WyzeMeshLight\<close> handles values that come from two sides: HomeKit
  passes numbers and booleans to the \<open>set\<close> handlers, the Wyze property list carries
  whatever the API returned (strings, as a rule). A field of the empty object
  \<open>this.cache = {}\<close> reads as \<open>undefined\<close>. Finite numbers are rationals (every finite
  double is one); \<open>NaN\<close> is the result of arithmetic on something that is not a number.
  The infinities and the sign of zero are outside the model: every number in it is a finite
  double whose intermediate results stay below \<open>2 ^ 1024\<close> in magnitude.
\<close>

datatype jsval = Undefined | Bool bool | Num rat | NaN | Str string

datatype error = TypeError | Rejection string

text \<open>Truthiness, as the conditional operator \<open>(value) ? '1' : '0'\<close> tests it.\<close>

fun truthy :: "jsval \<Rightarrow> bool" where
  "truthy Undefined = False"
| "truthy (Bool b) = b"
| "truthy (Num x) = (x \<noteq> 0)"
| "truthy NaN = False"
| "truthy (Str s) = (s \<noteq> [])"

subsection \<open>Binary64 arithmetic\<close>

text \<open>
  \<open>binade x\<close> is the exponent \<open>e\<close> with \<open>2 ^ e \<le> \<bar>x\<bar> < 2 ^ (e + 1)\<close>, computed from the
  bit lengths (\<open>bitlen\<close>) of numerator and denominator. \<open>fl\<close> rounds a rational to the nearest double,
  ties to the even significand: 53 bits of significand in the normal range, multiples of
  \<open>2 ^ -1074\<close> below \<open>2 ^ -1022\<close>. Each arithmetic operator of the source is the exact
  operation followed by \<open>fl\<close>.
\<close>

function bitlen :: "int \<Rightarrow> int" where
  "bitlen p = (if p \<le> 0 then 0 else bitlen (p div 2) + 1)"
  by pat_completeness auto
termination
  by (relation "measure nat") auto

declare bitlen.simps [simp del]

definition binade :: "rat \<Rightarrow> int" where
  "binade x =
     (let (p, q) = quotient_of \<bar>x\<bar>;
          d = bitlen p - bitlen q
      in if 2 powi d \<le> \<bar>x\<bar> then d else d - 1)"

definition round_even :: "rat \<Rightarrow> int" where
  "round_even y =
     (let f = \<lfloor>y\<rfloor>; d = y - of_int f
      in if d < 1 / 2 then f
         else if 1 / 2 < d then f + 1
         else if even f then f else f + 1)"

definition fl :: "rat \<Rightarrow> rat" where
  "fl x =
     (if x = 0 then 0
      else let u = 2 powi (max (binade x) (- 1022) - 52)
           in of_int (round_even (x / u)) * u)"

definition fsub :: "rat \<Rightarrow> rat \<Rightarrow> rat" where
  "fsub x y = fl (x - y)"

definition fadd :: "rat \<Rightarrow> rat \<Rightarrow> rat" where
  "fadd x y = fl (x + y)"

definition fmul :: "rat \<Rightarrow> rat \<Rightarrow> rat" where
  "fmul x y = fl (x * y)"

definition fdiv :: "rat \<Rightarrow> rat \<Rightarrow> rat" where
  "fdiv x y = fl (x / y)"

text \<open>
  \<open>Math.round\<close>: the nearest integer, a tie going towards \<open>+\<infinity>\<close>. The result of
  rounding a double is a double, so no \<open>fl\<close> follows.
\<close>

definition Math_round :: "rat \<Rightarrow> rat" where
  "Math_round x = of_int \<lfloor>x + 1 / 2\<rfloor>"

section \<open>Collaborators outside the repository\<close>

text \<open>
  The colour arithmetic is done by the package \<open>color-convert\<close>, and strings are turned
  into numbers by the JavaScript runtime; neither is part of the repository. They are
  parameters of the model. The intermediate RGB value that the source passes from one
  library call to the next has an abstract type \<open>'rgb\<close>. The result of \<open>rgb.hsv\<close> is
  indexed by the source: \<open>None\<close> stands for a result that cannot be indexed
  (\<open>undefined\<close>), \<open>Some xs\<close> for one whose elements are \<open>xs\<close>. The library calls are
  taken to return.
\<close>

record 'rgb platform =
  hsv_rgb :: "jsval \<Rightarrow> jsval \<Rightarrow> jsval \<Rightarrow> 'rgb"
  rgb_hex :: "'rgb \<Rightarrow> jsval"
  hex_rgb :: "jsval \<Rightarrow> 'rgb"
  rgb_hsv :: "'rgb \<Rightarrow> jsval list option"
  string_to_number :: "string \<Rightarrow> rat option"

text \<open>The conversion to a number that \<open>value - min\<close> applies; \<open>None\<close> is \<open>NaN\<close>.\<close>

fun to_number :: "'rgb platform \<Rightarrow> jsval \<Rightarrow> rat option" where
  "to_number pf Undefined = None"
| "to_number pf (Bool b) = Some (if b then 1 else 0)"
| "to_number pf (Num x) = Some x"
| "to_number pf NaN = None"
| "to_number pf (Str s) = string_to_number pf s"

text \<open>\<open>a[i]\<close> on the result of a library call: a \<open>TypeError\<close> on \<open>undefined\<close>.\<close>

definition index :: "jsval list option \<Rightarrow> nat \<Rightarrow> error + jsval" where
  "index a i =
     (case a of
        None \<Rightarrow> Inl TypeError
      | Some xs \<Rightarrow> Inr (if i < length xs then xs ! i else Undefined))"

section \<open>The accessory\<close>

definition WYZE_API_POWER_PROPERTY :: string where
  "WYZE_API_POWER_PROPERTY = ''P3''"

definition WYZE_API_BRIGHTNESS_PROPERTY :: string where
  "WYZE_API_BRIGHTNESS_PROPERTY = ''P1501''"

definition WYZE_API_COLOR_TEMP_PROPERTY :: string where
  "WYZE_API_COLOR_TEMP_PROPERTY = ''P1502''"

definition WYZE_API_COLOR_PROPERTY :: string where
  "WYZE_API_COLOR_PROPERTY = ''P1507''"

definition WYZE_COLOR_TEMP_MIN :: rat where
  "WYZE_COLOR_TEMP_MIN = 1800"

definition WYZE_COLOR_TEMP_MAX :: rat where
  "WYZE_COLOR_TEMP_MAX = 6500"

definition HOMEKIT_COLOR_TEMP_MIN :: rat where
  "HOMEKIT_COLOR_TEMP_MIN = 153"

definition HOMEKIT_COLOR_TEMP_MAX :: rat where
  "HOMEKIT_COLOR_TEMP_MAX = 555"

text \<open>
  The state of one accessory: the colour cache \<open>this.cache\<close>, the flag
  \<open>this.cacheUpdated\<close> (the spec's \<open>pendingColorWrite\<close>), and the values last pushed to
  the five HomeKit characteristics with \<open>updateValue\<close>.
\<close>

datatype characteristic = On | Brightness | ColorTemperature | Hue | Saturation

record cache =
  hue :: jsval
  saturation :: jsval
  brightness :: jsval

record adapter =
  cache :: cache
  cacheUpdated :: bool
  chars :: "characteristic \<rightharpoonup> jsval"

definition constructor :: adapter where
  "constructor =
     \<lparr>cache = \<lparr>hue = Undefined, saturation = Undefined, brightness = Undefined\<rparr>,
      cacheUpdated = False,
      chars = Map.empty\<rparr>"

definition updateValue :: "characteristic \<Rightarrow> jsval \<Rightarrow> adapter \<Rightarrow> adapter" where
  "updateValue c v st = st\<lparr>chars := (chars st)(c \<mapsto> v)\<rparr>"

subsection \<open>Range remap\<close>

definition rangeToFloat :: "rat \<Rightarrow> rat \<Rightarrow> rat \<Rightarrow> rat" where
  "rangeToFloat v mn mx = fdiv (fsub v mn) (fsub mx mn)"

definition floatToRange :: "rat \<Rightarrow> rat \<Rightarrow> rat \<Rightarrow> rat" where
  "floatToRange v mn mx = Math_round (fadd (fmul v (fsub mx mn)) mn)"

text \<open>
  The two compositions of the source, in \<open>updateColorTemp\<close> and in
  \<open>setColorTemperature\<close>, on a finite number.
\<close>

definition deviceToUI :: "rat \<Rightarrow> rat" where
  "deviceToUI v =
     (let floatValue = rangeToFloat v WYZE_COLOR_TEMP_MIN WYZE_COLOR_TEMP_MAX
      in floatToRange floatValue HOMEKIT_COLOR_TEMP_MIN HOMEKIT_COLOR_TEMP_MAX)"

definition uiToDevice :: "rat \<Rightarrow> rat" where
  "uiToDevice v =
     (let floatValue = rangeToFloat v HOMEKIT_COLOR_TEMP_MIN HOMEKIT_COLOR_TEMP_MAX
      in floatToRange floatValue WYZE_COLOR_TEMP_MIN WYZE_COLOR_TEMP_MAX)"

text \<open>On any value: the operand is converted to a number first, and \<open>NaN\<close> stays \<open>NaN\<close>.\<close>

definition remap :: "'rgb platform \<Rightarrow> (rat \<Rightarrow> rat) \<Rightarrow> jsval \<Rightarrow> jsval" where
  "remap pf f v = (case to_number pf v of None \<Rightarrow> NaN | Some x \<Rightarrow> Num (f x))"

subsection \<open>Remote-to-local projection\<close>

definition updateBrightness :: "jsval \<Rightarrow> adapter \<Rightarrow> adapter" where
  "updateBrightness v st = updateValue Brightness v st"

definition updateColorTemp :: "'rgb platform \<Rightarrow> jsval \<Rightarrow> adapter \<Rightarrow> adapter" where
  "updateColorTemp pf v st =
     (let homeKitValue = remap pf deviceToUI v
      in updateValue ColorTemperature homeKitValue st)"

definition updateHue :: "jsval \<Rightarrow> adapter \<Rightarrow> adapter" where
  "updateHue v st = updateValue Hue v st"

definition updateSaturation :: "jsval \<Rightarrow> adapter \<Rightarrow> adapter" where
  "updateSaturation v st = updateValue Saturation v st"

text \<open>
  \<open>updateColor\<close> indexes the decoded value \<open>hslValue\<close> as it goes. Indexing raises a
  \<open>TypeError\<close> when the library returned \<open>undefined\<close>; that happens at the first index,
  before anything is written, and cannot happen at the later ones.
\<close>

definition updateColor :: "'rgb platform \<Rightarrow> jsval \<Rightarrow> adapter \<Rightarrow> error + adapter" where
  "updateColor pf v st =
     (let hslValue = rgb_hsv pf (hex_rgb pf v)
      in case index hslValue 0 of
           Inl e \<Rightarrow> Inl e
         | Inr h \<Rightarrow>
             (let st1 = updateHue h st;
                  st2 = st1\<lparr>cache := (cache st1)\<lparr>hue := h\<rparr>\<rparr>
              in case index hslValue 1 of
                   Inl e \<Rightarrow> Inl e
                 | Inr s \<Rightarrow>
                     (let st3 = updateSaturation s st2;
                          st4 = st3\<lparr>cache := (cache st3)\<lparr>saturation := s\<rparr>\<rparr>
                      in case index hslValue 2 of
                           Inl e \<Rightarrow> Inl e
                         | Inr b \<Rightarrow> Inr (st4\<lparr>cache := (cache st4)\<lparr>brightness := b\<rparr>\<rparr>))))"

text \<open>
  The loop over the property list. An exception leaves the loop; what was written before
  it stays written, so the state is returned together with the error.
\<close>

type_synonym property = "string \<times> jsval"

fun update_properties ::
  "'rgb platform \<Rightarrow> property list \<Rightarrow> adapter \<Rightarrow> adapter \<times> error option" where
  "update_properties pf [] st = (st, None)"
| "update_properties pf ((pid, v) # ps) st =
     (if pid = WYZE_API_BRIGHTNESS_PROPERTY then
        update_properties pf ps (updateBrightness v st)
      else if pid = WYZE_API_COLOR_TEMP_PROPERTY then
        update_properties pf ps (updateColorTemp pf v st)
      else if pid = WYZE_API_COLOR_PROPERTY then
        (case updateColor pf v st of
           Inl e \<Rightarrow> (st, Some e)
         | Inr st' \<Rightarrow> update_properties pf ps st')
      else update_properties pf ps st)"

text \<open>
  \<open>updateCharacteristics\<close> takes the power flag \<open>device.device_params.switch_state\<close> and
  what \<open>getPropertyList\<close> settled with: a rejection, or the property list.
\<close>

definition updateCharacteristics ::
  "'rgb platform \<Rightarrow> jsval \<Rightarrow> error + property list \<Rightarrow> adapter \<Rightarrow> adapter \<times> error option" where
  "updateCharacteristics pf switch_state propertyList st =
     (let st1 = updateValue On switch_state st
      in case propertyList of
           Inl e \<Rightarrow> (st1, Some e)
         | Inr ps \<Rightarrow> update_properties pf ps st1)"

subsection \<open>Local-to-remote command dispatch\<close>

text \<open>
  A handler issues at most one call of \<open>setBufferedProperty\<close>, an external collaborator;
  the \<open>outcome\<close> argument says how that call settles if it is issued. A handler returns
  the new state and what it did, in order: the remote writes issued and the call of the
  HomeKit callback, \<open>Callback None\<close> for \<open>callback()\<close> and \<open>Callback (Some e)\<close> for
  \<open>callback(e)\<close>. A handler runs to its end before the next one starts.
\<close>

datatype outcome = Resolves | Rejects error

datatype event = RemoteWrite string jsval | Callback "error option"

definition setOn :: "jsval \<Rightarrow> outcome \<Rightarrow> adapter \<Rightarrow> adapter \<times> event list" where
  "setOn v r st =
     (let w = RemoteWrite WYZE_API_POWER_PROPERTY (if truthy v then Str ''1'' else Str ''0'')
      in case r of
           Resolves \<Rightarrow> (st, [w, Callback None])
         | Rejects e \<Rightarrow> (st, [w, Callback (Some e)]))"

definition setBrightness :: "jsval \<Rightarrow> outcome \<Rightarrow> adapter \<Rightarrow> adapter \<times> event list" where
  "setBrightness v r st =
     (let w = RemoteWrite WYZE_API_BRIGHTNESS_PROPERTY v
      in case r of
           Resolves \<Rightarrow> (st\<lparr>cache := (cache st)\<lparr>brightness := v\<rparr>\<rparr>, [w, Callback None])
         | Rejects e \<Rightarrow> (st, [w, Callback (Some e)]))"

definition setColorTemperature ::
  "'rgb platform \<Rightarrow> jsval \<Rightarrow> outcome \<Rightarrow> adapter \<Rightarrow> adapter \<times> event list" where
  "setColorTemperature pf v r st =
     (let wyzeValue = remap pf uiToDevice v;
          w = RemoteWrite WYZE_API_COLOR_TEMP_PROPERTY wyzeValue
      in case r of
           Resolves \<Rightarrow> (st, [w, Callback None])
         | Rejects e \<Rightarrow> (st, [w, Callback (Some e)]))"

definition applyColorCache ::
  "'rgb platform \<Rightarrow> outcome \<Rightarrow> adapter \<Rightarrow> adapter \<times> event list" where
  "applyColorCache pf r st =
     (if cacheUpdated st then
        (let hexValue = rgb_hex pf (hsv_rgb pf (hue (cache st)) (saturation (cache st)) (Num 100));
             w = RemoteWrite WYZE_API_COLOR_PROPERTY hexValue
         in case r of
              Resolves \<Rightarrow> (st\<lparr>cacheUpdated := False\<rparr>, [w, Callback None])
            | Rejects e \<Rightarrow> (st, [w, Callback (Some e)]))
      else (st\<lparr>cacheUpdated := True\<rparr>, [Callback None]))"

definition setHue ::
  "'rgb platform \<Rightarrow> jsval \<Rightarrow> outcome \<Rightarrow> adapter \<Rightarrow> adapter \<times> event list" where
  "setHue pf v r st = applyColorCache pf r (st\<lparr>cache := (cache st)\<lparr>hue := v\<rparr>\<rparr>)"

definition setSaturation ::
  "'rgb platform \<Rightarrow> jsval \<Rightarrow> outcome \<Rightarrow> adapter \<Rightarrow> adapter \<times> event list" where
  "setSaturation pf v r st = applyColorCache pf r (st\<lparr>cache := (cache st)\<lparr>saturation := v\<rparr>\<rparr>)"

text \<open>
  The constructor binds one handler to the \<open>set\<close> event of each characteristic. A request
  is such an event; \<open>run\<close> serves a sequence of requests, each with the outcome of its
  remote write, and collects what each handler did.
\<close>

datatype request =
  SetOn jsval | SetBrightness jsval | SetColorTemperature jsval | SetHue jsval | SetSaturation jsval

fun dispatch ::
  "'rgb platform \<Rightarrow> request \<Rightarrow> outcome \<Rightarrow> adapter \<Rightarrow> adapter \<times> event list" where
  "dispatch pf (SetOn v) r st = setOn v r st"
| "dispatch pf (SetBrightness v) r st = setBrightness v r st"
| "dispatch pf (SetColorTemperature v) r st = setColorTemperature pf v r st"
| "dispatch pf (SetHue v) r st = setHue pf v r st"
| "dispatch pf (SetSaturation v) r st = setSaturation pf v r st"

fun run ::
  "'rgb platform \<Rightarrow> (request \<times> outcome) list \<Rightarrow> adapter \<Rightarrow> adapter \<times> event list list" where
  "run pf [] st = (st, [])"
| "run pf ((q, r) # qs) st =
     (let (st1, evs) = dispatch pf q r st;
          (st2, evss) = run pf qs st1
      in (st2, evs # evss))"

text \<open>What the callback of a request is called with, given how its remote write settled.\<close>

fun settled :: "outcome \<Rightarrow> error option" where
  "settled Resolves = None"
| "settled (Rejects e) = Some e"

text \<open>The values of the remote colour writes among the events of a handler.\<close>

fun color_writes :: "event list \<Rightarrow> jsval list" where
  "color_writes [] = []"
| "color_writes (RemoteWrite p v # evs) =
     (if p = WYZE_API_COLOR_PROPERTY then v # color_writes evs else color_writes evs)"
| "color_writes (Callback a # evs) = color_writes evs"

fun remote_writes :: "event list \<Rightarrow> (string \<times> jsval) list" where
  "remote_writes [] = []"
| "remote_writes (RemoteWrite p v # evs) = (p, v) # remote_writes evs"
| "remote_writes (Callback a # evs) = remote_writes evs"

fun callbacks :: "event list \<Rightarrow> error option list" where
  "callbacks [] = []"
| "callbacks (RemoteWrite p v # evs) = callbacks evs"
| "callbacks (Callback a # evs) = a # callbacks evs"

subsection \<open>What has been supplied since the last flush\<close>

text \<open>
  A bookkeeping pair beside the adapter: the hue and the saturation that local writes
  have supplied since the last remote colour write that resolved (or since construction).
  \<open>flushes_supplied\<close> runs a sequence of requests and says whether every remote colour
  write was issued with both supplied, and with their encoding as its value.
\<close>

type_synonym supplied = "jsval option \<times> jsval option"

fun mark_supplied :: "request \<Rightarrow> supplied \<Rightarrow> supplied" where
  "mark_supplied (SetHue v) (h, s) = (Some v, s)"
| "mark_supplied (SetSaturation v) (h, s) = (h, Some v)"
| "mark_supplied (SetOn v) g = g"
| "mark_supplied (SetBrightness v) g = g"
| "mark_supplied (SetColorTemperature v) g = g"

fun encodes :: "'rgb platform \<Rightarrow> supplied \<Rightarrow> jsval \<Rightarrow> bool" where
  "encodes pf (Some h, Some s) w = (w = rgb_hex pf (hsv_rgb pf h s (Num 100)))"
| "encodes pf (None, s) w = False"
| "encodes pf (h, None) w = False"

fun flushes_supplied ::
  "'rgb platform \<Rightarrow> (request \<times> outcome) list \<Rightarrow> supplied \<Rightarrow> adapter \<Rightarrow> bool" where
  "flushes_supplied pf [] g st = True"
| "flushes_supplied pf ((q, r) # qs) g st =
     (let g1 = mark_supplied q g;
          (st1, evs) = dispatch pf q r st;
          ws = color_writes evs
      in list_all (encodes pf g1) ws
         \<and> flushes_supplied pf qs (if ws \<noteq> [] \<and> r = Resolves then (None, None) else g1) st1)"

text \<open>A sequence of hue and saturation writes in which the two strictly alternate.\<close>

fun alternating :: "request list \<Rightarrow> bool" where
  "alternating [] = True"
| "alternating [SetHue v] = True"
| "alternating [SetSaturation v] = True"
| "alternating (SetHue v # SetSaturation v' # qs) = alternating (SetSaturation v' # qs)"
| "alternating (SetSaturation v # SetHue v' # qs) = alternating (SetHue v' # qs)"
| "alternating qs = False"

fun color_request :: "request \<Rightarrow> bool" where
  "color_request (SetHue v) = True"
| "color_request (SetSaturation v) = True"
| "color_request q = False"

text \<open>
  The cache as it is when the handler of a request issues its remote write: \<open>setHue\<close> and
  \<open>setSaturation\<close> store their value first, the other handlers store nothing before.
\<close>

fun stored :: "request \<Rightarrow> cache \<Rightarrow> cache" where
  "stored (SetHue v) c = c\<lparr>hue := v\<rparr>"
| "stored (SetSaturation v) c = c\<lparr>saturation := v\<rparr>"
| "stored (SetOn v) c = c"
| "stored (SetBrightness v) c = c"
| "stored (SetColorTemperature v) c = c"

text \<open>
  The invariant of the bookkeeping along an alternating sequence: what is marked as
  supplied is what the cache holds, and when the machine is armed the field that the next
  request does not write has been supplied.
\<close>

definition tracks :: "supplied \<Rightarrow> adapter \<Rightarrow> bool" where
  "tracks g st =
     ((case fst g of None \<Rightarrow> True | Some h \<Rightarrow> hue (cache st) = h)
      \<and> (case snd g of None \<Rightarrow> True | Some s \<Rightarrow> saturation (cache st) = s))"

definition armed_ok :: "supplied \<Rightarrow> request list \<Rightarrow> bool" where
  "armed_ok g qs =
     (case qs of
        SetHue v # _ \<Rightarrow> snd g \<noteq> None
      | SetSaturation v # _ \<Rightarrow> fst g \<noteq> None
      | _ \<Rightarrow> True)"

subsection \<open>The projection as a list of assignments\<close>

text \<open>
  The calls of \<open>updateValue\<close> that the loop over a property list makes, in order, up to
  the first property whose decoding raises; and the value a characteristic has after a
  list of assignments.
\<close>

fun assignments :: "'rgb platform \<Rightarrow> property list \<Rightarrow> (characteristic \<times> jsval) list" where
  "assignments pf [] = []"
| "assignments pf ((pid, v) # ps) =
     (if pid = WYZE_API_BRIGHTNESS_PROPERTY then (Brightness, v) # assignments pf ps
      else if pid = WYZE_API_COLOR_TEMP_PROPERTY then
        (ColorTemperature, remap pf deviceToUI v) # assignments pf ps
      else if pid = WYZE_API_COLOR_PROPERTY then
        (case rgb_hsv pf (hex_rgb pf v) of
           None \<Rightarrow> []
         | Some xs \<Rightarrow>
             (Hue, if 0 < length xs then xs ! 0 else Undefined)
             # (Saturation, if 1 < length xs then xs ! 1 else Undefined)
             # assignments pf ps)
      else assignments pf ps)"

fun final_value ::
  "(characteristic \<times> jsval) list \<Rightarrow> characteristic \<Rightarrow> jsval option \<Rightarrow> jsval option" where
  "final_value [] k old = old"
| "final_value ((c, v) # as) k old = final_value as k (if c = k then Some v else old)"

section \<open>A sample platform\<close>

text \<open>
  An instance of the collaborators, to run the model on concrete inputs: the usual
  conversion between HSV, RGB and six hex digits on numbers, in exact arithmetic with the
  channels rounded, and decimal digit strings as numbers. On an argument that is not a
  number, or not six hex digits, its colour functions return \<open>undefined\<close>. The theorems
  hold for every platform; this one instantiates them.
\<close>

definition hex_digits :: "(char \<times> int) list" where
  "hex_digits = zip ''0123456789abcdef'' [0..15] @ zip ''ABCDEF'' [10..15]"

definition to_hex2 :: "int \<Rightarrow> string" where
  "to_hex2 n = [''0123456789ABCDEF'' ! nat (n mod 256 div 16), ''0123456789ABCDEF'' ! nat (n mod 16)]"

fun from_hex :: "string \<Rightarrow> int option" where
  "from_hex [] = Some 0"
| "from_hex (c # cs) =
     (case (map_of hex_digits c, from_hex cs) of
        (Some d, Some n) \<Rightarrow> Some (d * 16 ^ length cs + n)
      | _ \<Rightarrow> None)"

definition sample_hsv_rgb :: "jsval \<Rightarrow> jsval \<Rightarrow> jsval \<Rightarrow> (rat \<times> rat \<times> rat) option" where
  "sample_hsv_rgb hv sv vv =
     (case (hv, sv, vv) of
        (Num h0, Num s0, Num v0) \<Rightarrow>
          (let h = h0 / 60; s = s0 / 100; v = v0 / 100;
               hi = \<lfloor>h\<rfloor> mod 6;
               f = h - of_int \<lfloor>h\<rfloor>;
               p = 255 * v * (1 - s);
               q = 255 * v * (1 - s * f);
               t = 255 * v * (1 - s * (1 - f));
               w = 255 * v;
               (r, g, b) =
                 (if hi = 0 then (w, t, p) else if hi = 1 then (q, w, p)
                  else if hi = 2 then (p, w, t) else if hi = 3 then (p, q, w)
                  else if hi = 4 then (t, p, w) else (w, p, q))
           in Some (Math_round r, Math_round g, Math_round b))
      | _ \<Rightarrow> None)"

definition sample_rgb_hex :: "(rat \<times> rat \<times> rat) option \<Rightarrow> jsval" where
  "sample_rgb_hex c =
     (case c of
        None \<Rightarrow> Undefined
      | Some (r, g, b) \<Rightarrow> Str (to_hex2 \<lfloor>r\<rfloor> @ to_hex2 \<lfloor>g\<rfloor> @ to_hex2 \<lfloor>b\<rfloor>))"

definition sample_hex_rgb :: "jsval \<Rightarrow> (rat \<times> rat \<times> rat) option" where
  "sample_hex_rgb v =
     (case v of
        Str s \<Rightarrow>
          (if length s = 6 then
             (case from_hex s of
                None \<Rightarrow> None
              | Some n \<Rightarrow> Some (of_int (n div 65536), of_int (n div 256 mod 256), of_int (n mod 256)))
           else None)
      | _ \<Rightarrow> None)"

definition sample_rgb_hsv :: "(rat \<times> rat \<times> rat) option \<Rightarrow> jsval list option" where
  "sample_rgb_hsv c =
     (case c of
        None \<Rightarrow> None
      | Some (r0, g0, b0) \<Rightarrow>
          (let r = r0 / 255; g = g0 / 255; b = b0 / 255;
               v = max r (max g b);
               d = v - min r (min g b);
               s = (if d = 0 then 0 else d / v);
               h = (if d = 0 then 0
                    else if r = v then (g - b) / d / 6
                    else if g = v then 1 / 3 + (b - r) / d / 6
                    else 2 / 3 + (r - g) / d / 6);
               h1 = (if h < 0 then h + 1 else h)
           in Some [Num (Math_round (h1 * 360)), Num (Math_round (s * 100)),
                    Num (Math_round (v * 100))]))"

fun decimal :: "string \<Rightarrow> nat option" where
  "decimal [] = None"
| "decimal [c] = (if c \<in> set ''0123456789'' then Some (of_char c - 48) else None)"
| "decimal (c # cs) =
     (case (decimal [c], decimal cs) of
        (Some d, Some n) \<Rightarrow> Some (d * 10 ^ length cs + n)
      | _ \<Rightarrow> None)"

definition sample_platform :: "(rat \<times> rat \<times> rat) option platform" where
  "sample_platform =
     \<lparr>hsv_rgb = sample_hsv_rgb,
      rgb_hex = sample_rgb_hex,
      hex_rgb = sample_hex_rgb,
      rgb_hsv = sample_rgb_hsv,
      string_to_number = (\<lambda>s. map_option of_nat (decimal s))\<rparr>"

text \<open>An armed adapter: the fresh one after a single saturation write.\<close>

definition armed_sample :: adapter where
  "armed_sample = fst (setSaturation sample_platform (Num 50) Resolves constructor)"

section \<open>The coalescing state machine\<close>

subsection \<open>One request\<close>

lemma dispatch_rejected:
  assumes "dispatch pf q (Rejects e) st = (st', evs)" and "remote_writes evs \<noteq> []"
  shows "callbacks evs = [Some e] \<and> cache st' = stored q (cache st)
         \<and> cacheUpdated st' = cacheUpdated st \<and> chars st' = chars st"
  using assms
  by (cases q)
     (auto simp: setOn_def setBrightness_def setColorTemperature_def setHue_def
        setSaturation_def applyColorCache_def Let_def split: if_splits)

lemma dispatch_armed:
  assumes "cacheUpdated st" and "color_request q" and "dispatch pf q r st = (st', evs)"
  shows "cache st' = stored q (cache st)
         \<and> evs = [RemoteWrite ''P1507''
                    (rgb_hex pf (hsv_rgb pf (hue (cache st')) (saturation (cache st')) (Num 100))),
                  Callback (settled r)]
         \<and> cacheUpdated st' = (r \<noteq> Resolves)
         \<and> chars st' = chars st"
  using assms
  by (cases q; cases r)
     (auto simp: setHue_def setSaturation_def applyColorCache_def Let_def
        WYZE_API_COLOR_PROPERTY_def)

lemma armed_sample_simps:
  "cacheUpdated armed_sample"
  "cache armed_sample = \<lparr>hue = Undefined, saturation = Num 50, brightness = Undefined\<rparr>"
  "chars armed_sample = Map.empty"
  by (simp_all add: armed_sample_def constructor_def setSaturation_def applyColorCache_def)

text \<open>
  C1. From the idle state (\<open>cacheUpdated\<close> false), the requests setHue(120),
  setSaturation(50) issue exactly one remote write, to property P1507, whose value is the
  library's hex encoding of hue 120, saturation 50, value 100; the first callback is called
  without an error, the second after the write and with how the write settled (without an
  error when it resolves). setHue(120) alone issues no remote write, and its callback is
  called without an error.
\<close>

theorem C1_hue_then_saturation:
  assumes "\<not> cacheUpdated st"
  shows "snd (run pf [(SetHue (Num 120), r1), (SetSaturation (Num 50), r2)] st) =
           [[Callback None],
            [RemoteWrite ''P1507'' (rgb_hex pf (hsv_rgb pf (Num 120) (Num 50) (Num 100))),
             Callback (settled r2)]]
         \<and> snd (run pf [(SetHue (Num 120), r1)] st) = [[Callback None]]"
  using assms
  by (cases r2)
     (simp_all add: setHue_def setSaturation_def applyColorCache_def WYZE_API_COLOR_PROPERTY_def)

text \<open>
  C1 on the fresh adapter and the sample platform, both writes resolving: the one remote
  write carries the six hex digits 80FF80.
\<close>

theorem C1_hue_then_saturation_witness:
  "\<not> cacheUpdated constructor
   \<and> snd (run sample_platform [(SetHue (Num 120), Resolves), (SetSaturation (Num 50), Resolves)]
            constructor) =
       [[Callback None], [RemoteWrite ''P1507'' (Str ''80FF80''), Callback None]]
   \<and> snd (run sample_platform [(SetHue (Num 120), Resolves)] constructor) = [[Callback None]]"
proof -
  have idle: "\<not> cacheUpdated constructor"
    by (simp add: constructor_def)
  have enc: "rgb_hex sample_platform (hsv_rgb sample_platform (Num 120) (Num 50) (Num 100))
             = Str ''80FF80''"
    by code_simp
  show ?thesis
    using C1_hue_then_saturation[OF idle, of sample_platform Resolves Resolves] idle enc
    by simp
qed

text \<open>
  C4, as stated, fails: a hue write that arrives in the armed state and whose remote write
  rejects leaves the machine armed, not idle.
\<close>

theorem C4_counterexample:
  "cacheUpdated armed_sample
   \<and> cacheUpdated
       (fst (setHue sample_platform (Num 120) (Rejects (Rejection ''offline'')) armed_sample))"
  by (simp add: armed_sample_simps setHue_def applyColorCache_def)

text \<open>
  C4, amended. A hue or saturation write that arrives in the armed state stores its value,
  issues one remote write to P1507 whose value is the library's hex encoding of the cached
  hue and saturation with the value component 100, and calls the callback after it, with
  how the write settled. The machine ends idle when the write resolves and stays armed when
  it rejects.
\<close>

theorem C4_armed_write_flushes:
  assumes "cacheUpdated st" and "color_request q" and "dispatch pf q r st = (st', evs)"
  shows "cache st' = stored q (cache st)
         \<and> evs = [RemoteWrite ''P1507''
                    (rgb_hex pf (hsv_rgb pf (hue (cache st')) (saturation (cache st')) (Num 100))),
                  Callback (settled r)]
         \<and> cacheUpdated st' = (r \<noteq> Resolves)"
  using dispatch_armed[OF assms] by simp

text \<open>C4, amended, on the armed sample adapter: a hue write whose remote write resolves.\<close>

theorem C4_armed_write_flushes_witness:
  "cacheUpdated armed_sample \<and> color_request (SetHue (Num 120))
   \<and> snd (dispatch sample_platform (SetHue (Num 120)) Resolves armed_sample) =
       [RemoteWrite ''P1507'' (Str ''80FF80''), Callback None]
   \<and> \<not> cacheUpdated (fst (dispatch sample_platform (SetHue (Num 120)) Resolves armed_sample))"
proof -
  let ?d = "dispatch sample_platform (SetHue (Num 120)) Resolves armed_sample"
  have a: "cacheUpdated armed_sample"
    by (rule armed_sample_simps)
  have c: "color_request (SetHue (Num 120))"
    by simp
  have d: "?d = (fst ?d, snd ?d)"
    by simp
  have st: "cache (fst ?d) = \<lparr>hue = Num 120, saturation = Num 50, brightness = Undefined\<rparr>"
    by (simp add: armed_sample_simps setHue_def applyColorCache_def)
  have enc: "rgb_hex sample_platform (hsv_rgb sample_platform (Num 120) (Num 50) (Num 100))
             = Str ''80FF80''"
    by code_simp
  show ?thesis
    using C4_armed_write_flushes[OF a c d] a st enc by simp
qed

text \<open>
  C10. When the remote colour write of a flush from the armed state rejects, the flag
  stays true and the error goes to the callback of that request; the next hue or
  saturation write stores its value and issues a remote colour write at once, encoding the
  cache as it then is.
\<close>

theorem C10_rejected_flush_stays_armed:
  assumes "cacheUpdated st" and "color_request q" and "color_request q'"
    and "dispatch pf q (Rejects e) st = (st1, evs1)"
    and "dispatch pf q' r' st1 = (st2, evs2)"
  shows "cacheUpdated st1 \<and> callbacks evs1 = [Some e]
         \<and> cache st2 = stored q' (cache st1)
         \<and> evs2 = [RemoteWrite ''P1507''
                     (rgb_hex pf (hsv_rgb pf (hue (cache st2)) (saturation (cache st2)) (Num 100))),
                    Callback (settled r')]"
proof -
  have 1: "cacheUpdated st1" "callbacks evs1 = [Some e]"
    using dispatch_armed[OF assms(1,2,4)] by simp_all
  show ?thesis
    using 1 dispatch_armed[OF 1(1) assms(3,5)] by simp
qed

text \<open>
  C10 on the armed sample adapter: a hue write is rejected, the saturation write that
  follows flushes hue 120 with saturation 100.
\<close>

theorem C10_rejected_flush_stays_armed_witness:
  "cacheUpdated armed_sample
   \<and> cacheUpdated
       (fst (dispatch sample_platform (SetHue (Num 120)) (Rejects (Rejection ''offline''))
               armed_sample))
   \<and> snd (dispatch sample_platform (SetSaturation (Num 100)) Resolves
            (fst (dispatch sample_platform (SetHue (Num 120)) (Rejects (Rejection ''offline''))
                    armed_sample))) =
       [RemoteWrite ''P1507'' (Str ''00FF00''), Callback None]"
proof -
  let ?d1 = "dispatch sample_platform (SetHue (Num 120)) (Rejects (Rejection ''offline''))
               armed_sample"
  let ?d2 = "dispatch sample_platform (SetSaturation (Num 100)) Resolves (fst ?d1)"
  have a: "cacheUpdated armed_sample"
    by (rule armed_sample_simps)
  have d1: "?d1 = (fst ?d1, snd ?d1)" and d2: "?d2 = (fst ?d2, snd ?d2)"
    by simp_all
  have st: "cache (fst ?d2) = \<lparr>hue = Num 120, saturation = Num 100, brightness = Undefined\<rparr>"
    by (simp add: armed_sample_simps setHue_def setSaturation_def applyColorCache_def)
  have enc: "rgb_hex sample_platform (hsv_rgb sample_platform (Num 120) (Num 100) (Num 100))
             = Str ''00FF00''"
    by code_simp
  have "color_request (SetHue (Num 120))" and "color_request (SetSaturation (Num 100))"
    by simp_all
  from C10_rejected_flush_stays_armed[OF a this d1 d2] show ?thesis
    using a st enc by simp
qed

text \<open>
  C3, as stated, fails for the hue handler: in the armed state the remote write is
  rejected, the callback gets the error, and the hue field of the cache has changed from
  \<open>undefined\<close> to the requested 120.
\<close>

theorem C3_counterexample:
  "remote_writes
     (snd (setHue sample_platform (Num 120) (Rejects (Rejection ''offline'')) armed_sample)) \<noteq> []
   \<and> callbacks
       (snd (setHue sample_platform (Num 120) (Rejects (Rejection ''offline'')) armed_sample))
     = [Some (Rejection ''offline'')]
   \<and> hue (cache armed_sample) = Undefined
   \<and> hue (cache
       (fst (setHue sample_platform (Num 120) (Rejects (Rejection ''offline'')) armed_sample)))
     = Num 120"
  by (simp add: armed_sample_simps setHue_def applyColorCache_def)

text \<open>
  C3, amended. For each of the five handlers: when the remote write it issues rejects with
  an error, the callback is called once, with that error, and the cache is as it was when
  the write was issued. That is the cache from before the request for setOn, setBrightness
  and setColorTemperature; for setHue and setSaturation it is that cache with the
  requested field stored, the other two fields unchanged.
\<close>

theorem C3_rejected_write:
  assumes "dispatch pf q (Rejects e) st = (st', evs)" and "remote_writes evs \<noteq> []"
  shows "callbacks evs = [Some e] \<and> cache st' = stored q (cache st)"
  using dispatch_rejected[OF assms] by simp

text \<open>
  C3, amended, on a hue write to the armed sample adapter: the callback gets the error,
  and the cache holds the requested hue beside the saturation it had.
\<close>

theorem C3_rejected_write_witness:
  "remote_writes
     (snd (dispatch sample_platform (SetHue (Num 120)) (Rejects (Rejection ''offline''))
             armed_sample)) \<noteq> []
   \<and> callbacks
       (snd (dispatch sample_platform (SetHue (Num 120)) (Rejects (Rejection ''offline''))
               armed_sample))
     = [Some (Rejection ''offline'')]
   \<and> cache (fst (dispatch sample_platform (SetHue (Num 120))
                   (Rejects (Rejection ''offline'')) armed_sample))
     = \<lparr>hue = Num 120, saturation = Num 50, brightness = Undefined\<rparr>"
proof -
  let ?d = "dispatch sample_platform (SetHue (Num 120)) (Rejects (Rejection ''offline''))
              armed_sample"
  have d: "?d = (fst ?d, snd ?d)"
    by simp
  have w: "remote_writes (snd ?d) \<noteq> []"
    by (simp add: setHue_def applyColorCache_def armed_sample_simps)
  show ?thesis
    using C3_rejected_write[OF d w] w by (simp add: armed_sample_simps)
qed

subsection \<open>Sequences of hue and saturation writes\<close>

lemma alternating_tail: "alternating (q # qs) \<Longrightarrow> alternating qs"
  by (induction "q # qs" rule: alternating.induct) auto

lemma alternating_color: "alternating (q # qs) \<Longrightarrow> color_request q"
  by (cases q; cases qs) auto

lemma armed_ok_after_hue: "alternating (SetHue v # qs) \<Longrightarrow> armed_ok (Some h, s) qs"
  by (cases qs; cases "hd qs") (auto simp: armed_ok_def)

lemma armed_ok_after_sat: "alternating (SetSaturation v # qs) \<Longrightarrow> armed_ok (h, Some s) qs"
  by (cases qs; cases "hd qs") (auto simp: armed_ok_def)

lemma flushes_supplied_inv:
  "alternating (map fst qs) \<Longrightarrow> tracks g st
   \<Longrightarrow> (cacheUpdated st \<longrightarrow> armed_ok g (map fst qs))
   \<Longrightarrow> flushes_supplied pf qs g st"
proof (induction qs arbitrary: g st)
  case Nil
  then show ?case by simp
next
  case (Cons a qs)
  obtain q r where a: "a = (q, r)" by (cases a)
  obtain gh gs where g: "g = (gh, gs)" by (cases g)
  have alt0: "alternating (q # map fst qs)"
    using Cons.prems(1) a by simp
  have alt: "alternating (map fst qs)"
    using alt0 by (rule alternating_tail)
  have col: "color_request q"
    using alt0 by (rule alternating_color)
  show ?case
  proof (cases q)
    case (SetHue v)
    have nxt: "armed_ok (Some v, gs') (map fst qs)" for gs'
      using alt0 SetHue by (auto intro: armed_ok_after_hue)
    show ?thesis
    proof (cases "cacheUpdated st")
      case True
      then obtain s where s: "gs = Some s" "saturation (cache st) = s"
        using Cons.prems(2,3) a g SetHue by (auto simp: armed_ok_def tracks_def)
      show ?thesis
      proof (cases r)
        case Resolves
        have "flushes_supplied pf qs (None, None)
                (st\<lparr>cache := (cache st)\<lparr>hue := v\<rparr>, cacheUpdated := False\<rparr>)"
          by (rule Cons.IH) (use alt in \<open>auto simp: tracks_def\<close>)
        then show ?thesis
          using a g SetHue True s Resolves
          by (simp add: setHue_def applyColorCache_def Let_def)
      next
        case (Rejects e)
        have "flushes_supplied pf qs (Some v, Some s) (st\<lparr>cache := (cache st)\<lparr>hue := v\<rparr>\<rparr>)"
          by (rule Cons.IH) (use alt nxt s in \<open>auto simp: tracks_def\<close>)
        then show ?thesis
          using a g SetHue True s Rejects
          by (simp add: setHue_def applyColorCache_def Let_def)
      qed
    next
      case False
      have "tracks (Some v, gs) (st\<lparr>cache := (cache st)\<lparr>hue := v\<rparr>, cacheUpdated := True\<rparr>)"
        using Cons.prems(2) g by (auto simp: tracks_def split: option.splits)
      then have "flushes_supplied pf qs (Some v, gs)
                   (st\<lparr>cache := (cache st)\<lparr>hue := v\<rparr>, cacheUpdated := True\<rparr>)"
        using alt nxt by (intro Cons.IH) auto
      then show ?thesis
        using a g SetHue False
        by (simp add: setHue_def applyColorCache_def Let_def)
    qed
  next
    case (SetSaturation v)
    have nxt: "armed_ok (gh', Some v) (map fst qs)" for gh'
      using alt0 SetSaturation by (auto intro: armed_ok_after_sat)
    show ?thesis
    proof (cases "cacheUpdated st")
      case True
      then obtain h where h: "gh = Some h" "hue (cache st) = h"
        using Cons.prems(2,3) a g SetSaturation by (auto simp: armed_ok_def tracks_def)
      show ?thesis
      proof (cases r)
        case Resolves
        have "flushes_supplied pf qs (None, None)
                (st\<lparr>cache := (cache st)\<lparr>saturation := v\<rparr>, cacheUpdated := False\<rparr>)"
          by (rule Cons.IH) (use alt in \<open>auto simp: tracks_def\<close>)
        then show ?thesis
          using a g SetSaturation True h Resolves
          by (simp add: setSaturation_def applyColorCache_def Let_def)
      next
        case (Rejects e)
        have "flushes_supplied pf qs (Some h, Some v)
                (st\<lparr>cache := (cache st)\<lparr>saturation := v\<rparr>\<rparr>)"
          by (rule Cons.IH) (use alt nxt h in \<open>auto simp: tracks_def\<close>)
        then show ?thesis
          using a g SetSaturation True h Rejects
          by (simp add: setSaturation_def applyColorCache_def Let_def)
      qed
    next
      case False
      have "tracks (gh, Some v)
              (st\<lparr>cache := (cache st)\<lparr>saturation := v\<rparr>, cacheUpdated := True\<rparr>)"
        using Cons.prems(2) g by (auto simp: tracks_def split: option.splits)
      then have "flushes_supplied pf qs (gh, Some v)
                   (st\<lparr>cache := (cache st)\<lparr>saturation := v\<rparr>, cacheUpdated := True\<rparr>)"
        using alt nxt by (intro Cons.IH) auto
      then show ?thesis
        using a g SetSaturation False
        by (simp add: setSaturation_def applyColorCache_def Let_def)
    qed
  qed (use col in auto)
qed

text \<open>
  C2, as stated, fails: from the fresh adapter the writes setHue(10), setHue(20), both
  resolving, issue a remote write to P1507 at the second request although no saturation
  was ever supplied.
\<close>

theorem C2_counterexample:
  "map fst (remote_writes (snd (dispatch sample_platform (SetHue (Num 20)) Resolves
      (fst (dispatch sample_platform (SetHue (Num 10)) Resolves constructor))))) = [''P1507'']
   \<and> saturation (cache (fst (dispatch sample_platform (SetHue (Num 20)) Resolves
      (fst (dispatch sample_platform (SetHue (Num 10)) Resolves constructor))))) = Undefined
   \<and> \<not> flushes_supplied sample_platform
         [(SetHue (Num 10), Resolves), (SetHue (Num 20), Resolves)] (None, None) constructor"
  by (simp add: constructor_def setHue_def applyColorCache_def WYZE_API_COLOR_PROPERTY_def)

text \<open>
  C2, amended. For every sequence of local writes from the fresh adapter in which hue and
  saturation writes strictly alternate, however the remote writes settle: a remote colour
  write is issued only when both a hue and a saturation have been supplied since the last
  remote colour write that resolved (or since construction), and its value is the
  library's encoding of the hue and the saturation supplied last.
\<close>

theorem C2_alternating_flushes_supplied:
  assumes "alternating (map fst qs)"
  shows "flushes_supplied pf qs (None, None) constructor"
  using assms
  by (rule flushes_supplied_inv) (auto simp: tracks_def constructor_def)

text \<open>C2, amended, on four alternating writes, the second of which is rejected.\<close>

theorem C2_alternating_flushes_supplied_witness:
  "alternating (map fst [(SetHue (Num 120), Resolves),
                         (SetSaturation (Num 50), Rejects (Rejection ''offline'')),
                         (SetHue (Num 200), Resolves),
                         (SetSaturation (Num 10), Resolves)])
   \<and> flushes_supplied sample_platform
        [(SetHue (Num 120), Resolves),
         (SetSaturation (Num 50), Rejects (Rejection ''offline'')),
         (SetHue (Num 200), Resolves),
         (SetSaturation (Num 10), Resolves)] (None, None) constructor"
proof -
  have alt: "alternating (map fst [(SetHue (Num 120), Resolves),
                         (SetSaturation (Num 50), Rejects (Rejection ''offline'')),
                         (SetHue (Num 200), Resolves),
                         (SetSaturation (Num 10), Resolves)])"
    by simp
  show ?thesis
    using C2_alternating_flushes_supplied[OF alt, of sample_platform] alt by simp
qed

section \<open>The colour cache and the projection\<close>

text \<open>
  C7. A remote colour update whose value the library decodes to hue, saturation and value
  (as it does a string of six hex digits) pushes the decoded hue and saturation to the Hue
  and Saturation characteristics, overwrites the three cache fields with the three decoded
  components, and changes nothing else: the flag \<open>cacheUpdated\<close> is as before.
\<close>

theorem C7_remote_color_update:
  assumes "rgb_hsv pf (hex_rgb pf v) = Some [h, s, b]"
  shows "updateColor pf v st =
           Inr (st\<lparr>cache := \<lparr>hue = h, saturation = s, brightness = b\<rparr>,
                   chars := (chars st)(Hue \<mapsto> h, Saturation \<mapsto> s)\<rparr>)
         \<and> update_properties pf [(''P1507'', v)] st =
           (st\<lparr>cache := \<lparr>hue = h, saturation = s, brightness = b\<rparr>,
               chars := (chars st)(Hue \<mapsto> h, Saturation \<mapsto> s)\<rparr>, None)
         \<and> cacheUpdated
             (st\<lparr>cache := \<lparr>hue = h, saturation = s, brightness = b\<rparr>,
                 chars := (chars st)(Hue \<mapsto> h, Saturation \<mapsto> s)\<rparr>) = cacheUpdated st"
  using assms
  by (simp add: updateColor_def index_def updateHue_def updateSaturation_def updateValue_def
      WYZE_API_COLOR_PROPERTY_def WYZE_API_BRIGHTNESS_PROPERTY_def
      WYZE_API_COLOR_TEMP_PROPERTY_def)

text \<open>
  C7 on the armed sample adapter and the value ff0000: hue 0, saturation 100 and value
  100, and the adapter is still armed.
\<close>

theorem C7_remote_color_update_witness:
  "rgb_hsv sample_platform (hex_rgb sample_platform (Str ''ff0000''))
     = Some [Num 0, Num 100, Num 100]
   \<and> updateColor sample_platform (Str ''ff0000'') armed_sample =
       Inr (armed_sample\<lparr>cache := \<lparr>hue = Num 0, saturation = Num 100, brightness = Num 100\<rparr>,
                        chars := (chars armed_sample)(Hue \<mapsto> Num 0, Saturation \<mapsto> Num 100)\<rparr>)"
proof -
  have dec: "rgb_hsv sample_platform (hex_rgb sample_platform (Str ''ff0000''))
             = Some [Num 0, Num 100, Num 100]"
    by code_simp
  from C7_remote_color_update[OF dec, of armed_sample] dec show ?thesis
    by simp
qed

text \<open>
  C8, as stated, fails: a brightness write whose remote write resolves stores its value in
  the brightness field of the cache.
\<close>

theorem C8_counterexample:
  "brightness (cache constructor) = Undefined
   \<and> brightness (cache (fst (setBrightness (Num 50) Resolves constructor))) = Num 50"
  by (simp add: setBrightness_def constructor_def)

text \<open>
  C8, amended. The cache is empty at construction. The handlers setOn and
  setColorTemperature, a setBrightness whose remote write rejects, the update of On and
  the remote projections of brightness and colour temperature leave every field of the
  cache unchanged. A setBrightness whose remote write resolves stores its value in the
  brightness field and leaves hue and saturation unchanged.
\<close>

theorem C8_cache_frame:
  "cache constructor = \<lparr>hue = Undefined, saturation = Undefined, brightness = Undefined\<rparr>
   \<and> cache (fst (setOn v r st)) = cache st
   \<and> cache (fst (setColorTemperature pf v r st)) = cache st
   \<and> cache (fst (setBrightness v (Rejects e) st)) = cache st
   \<and> cache (fst (setBrightness v Resolves st)) = (cache st)\<lparr>brightness := v\<rparr>
   \<and> cache (updateValue On v st) = cache st
   \<and> cache (updateBrightness v st) = cache st
   \<and> cache (updateColorTemp pf v st) = cache st"
  by (cases r)
     (simp_all add: constructor_def setOn_def setColorTemperature_def setBrightness_def
        updateValue_def updateBrightness_def updateColorTemp_def Let_def)

subsection \<open>Idempotence of the projection\<close>

lemma update_properties_chars:
  "chars (fst (update_properties pf ps st)) k = final_value (assignments pf ps) k (chars st k)"
proof (induction ps arbitrary: st k)
  case Nil
  then show ?case by simp
next
  case (Cons p ps)
  obtain pid v where p: "p = (pid, v)" by (cases p)
  show ?case
    using p Cons.IH
    by (simp add: updateBrightness_def updateColorTemp_def updateColor_def updateHue_def
        updateSaturation_def updateValue_def index_def Let_def
        split: option.splits)
qed

lemma update_properties_error:
  "snd (update_properties pf ps st) = snd (update_properties pf ps st')"
  by (induction ps arbitrary: st st')
     (auto simp: updateColor_def index_def Let_def split: option.splits)

lemma final_value_override:
  "final_value as k old = (case final_value as k None of None \<Rightarrow> old | Some w \<Rightarrow> Some w)"
proof (induction as arbitrary: old)
  case Nil
  then show ?case by simp
next
  case (Cons a as)
  obtain c v where a: "a = (c, v)" by (cases a)
  show ?case
  proof (cases "c = k")
    case True
    then show ?thesis
      using a Cons.IH[of "Some v"] by (simp split: option.splits)
  next
    case False
    then show ?thesis
      using a Cons.IH[of old] by simp
  qed
qed

lemma final_value_idem: "final_value as k (final_value as k old) = final_value as k old"
  using final_value_override[of as k "final_value as k old"] final_value_override[of as k old]
  by (simp split: option.splits)

text \<open>
  C9. Running \<open>updateCharacteristics\<close> a second time with the same power flag and the
  same result of \<open>getPropertyList\<close> leaves every characteristic at the value the first
  run gave it, and ends the same way (normally, or with the same error): what the first
  run wrote to the cache has no influence on the second.
\<close>

theorem C9_projection_idempotent:
  "chars (fst (updateCharacteristics pf sw pl (fst (updateCharacteristics pf sw pl st))))
     = chars (fst (updateCharacteristics pf sw pl st))
   \<and> snd (updateCharacteristics pf sw pl (fst (updateCharacteristics pf sw pl st)))
     = snd (updateCharacteristics pf sw pl st)"
proof (cases pl)
  case (Inl e)
  then show ?thesis by (simp add: updateCharacteristics_def updateValue_def)
next
  case (Inr ps)
  let ?st1 = "fst (update_properties pf ps (updateValue On sw st))"
  have "chars (fst (update_properties pf ps (updateValue On sw ?st1))) k = chars ?st1 k" for k
  proof (cases "k = On")
    case True
    then show ?thesis
      using final_value_override[of "assignments pf ps" On "chars ?st1 On"]
      by (simp add: update_properties_chars updateValue_def split: option.splits)
  next
    case False
    then show ?thesis
      by (simp add: update_properties_chars updateValue_def final_value_idem)
  qed
  then show ?thesis
    using Inr update_properties_error[of pf ps]
    by (simp add: updateCharacteristics_def fun_eq_iff)
qed

section \<open>The range remap\<close>

subsection \<open>Rounding to a double\<close>

lemma bitlen_bounds:
  "0 < p \<Longrightarrow> 1 \<le> bitlen p \<and> 2 ^ nat (bitlen p - 1) \<le> p \<and> p < 2 ^ nat (bitlen p)"
proof (induction p rule: bitlen.induct)
  case (1 p)
  show ?case
  proof (cases "p div 2 \<le> 0")
    case True
    with 1(2) have "p = 1" by linarith
    then show ?thesis
      by (simp add: bitlen.simps[of 1] bitlen.simps[of 0])
  next
    case False
    then have h: "0 < p div 2" by simp
    from 1(2) have np: "\<not> p \<le> 0" by simp
    from 1(1)[OF np h] have IH: "1 \<le> bitlen (p div 2)"
      "2 ^ nat (bitlen (p div 2) - 1) \<le> p div 2" "p div 2 < 2 ^ nat (bitlen (p div 2))"
      by simp_all
    have b: "bitlen p = bitlen (p div 2) + 1"
      using np by (simp add: bitlen.simps[of p])
    define k where "k = nat (bitlen (p div 2) - 1)"
    have k1: "nat (bitlen (p div 2)) = Suc k"
      using IH(1) by (simp add: k_def)
    have k2: "nat (bitlen p - 1) = Suc k" "nat (bitlen p) = Suc (Suc k)"
      using IH(1) b by (simp_all add: k_def)
    have lo: "(2::int) ^ k \<le> p div 2" using IH(2) by (simp add: k_def)
    have hi: "p div 2 < (2::int) ^ Suc k" using IH(3) k1 by simp
    have "2 * (p div 2) \<le> p" "p \<le> 2 * (p div 2) + 1" by presburger+
    then have "(2::int) ^ Suc k \<le> p" "p < 2 ^ Suc (Suc k)"
      using lo hi by simp_all
    then show ?thesis
      using IH(1) b k2 by simp
  qed
qed

lemma bitlen_powi:
  assumes "0 < p"
  shows "2 powi (bitlen p - 1) \<le> (of_int p :: rat)" and "(of_int p :: rat) < 2 powi bitlen p"
proof -
  from bitlen_bounds[OF assms] have b: "1 \<le> bitlen p"
    and lo: "2 ^ nat (bitlen p - 1) \<le> p" and hi: "p < 2 ^ nat (bitlen p)"
    by simp_all
  have "(of_int (2 ^ nat (bitlen p - 1)) :: rat) \<le> of_int p"
    using lo by (simp only: of_int_le_iff)
  then show "2 powi (bitlen p - 1) \<le> (of_int p :: rat)"
    using b by (simp add: power_int_nonneg_exp)
  have "(of_int p :: rat) < of_int (2 ^ nat (bitlen p))"
    using hi by (simp only: of_int_less_iff)
  then show "(of_int p :: rat) < 2 powi bitlen p"
    using b by (simp add: power_int_nonneg_exp)
qed

lemma binade_bounds:
  assumes "x \<noteq> 0"
  shows "2 powi binade x \<le> \<bar>x\<bar>" and "\<bar>x\<bar> < 2 powi (binade x + 1)"
proof -
  obtain p q where pq: "quotient_of \<bar>x\<bar> = (p, q)" by (cases "quotient_of \<bar>x\<bar>")
  have q: "0 < q" using pq by (rule quotient_of_denom_pos)
  have x: "\<bar>x\<bar> = of_int p / of_int q" using pq by (rule quotient_of_div)
  have "0 < \<bar>x\<bar>" using assms by simp
  then have p: "0 < p" using x q by (simp add: zero_less_divide_iff)
  define d where "d = bitlen p - bitlen q"
  have qpos: "(0::rat) < of_int q" using q by simp
  have ub: "\<bar>x\<bar> < 2 powi (d + 1)"
  proof -
    have "of_int p < (2::rat) powi bitlen p" using bitlen_powi(2)[OF p] .
    moreover have "(2::rat) powi (bitlen q - 1) \<le> of_int q" using bitlen_powi(1)[OF q] .
    ultimately have "of_int p * 2 powi (bitlen q - 1) < (2::rat) powi bitlen p * of_int q"
      using qpos p by (intro mult_less_le_imp_less) auto
    then have "of_int p / of_int q < (2::rat) powi bitlen p / 2 powi (bitlen q - 1)"
      using qpos by (simp add: field_simps)
    also have "\<dots> = 2 powi (d + 1)"
      unfolding d_def by (simp add: power_int_diff power_int_add)
    finally show ?thesis using x by simp
  qed
  have lb: "d \<noteq> binade x \<Longrightarrow> 2 powi (d - 1) \<le> \<bar>x\<bar>"
  proof -
    have "(2::rat) powi (bitlen p - 1) \<le> of_int p" using bitlen_powi(1)[OF p] .
    moreover have "of_int q < (2::rat) powi bitlen q" using bitlen_powi(2)[OF q] .
    ultimately have "(2::rat) powi (bitlen p - 1) * of_int q \<le> of_int p * 2 powi bitlen q"
      using qpos p by (intro mult_mono) auto
    then have "(2::rat) powi (bitlen p - 1) / 2 powi bitlen q \<le> of_int p / of_int q"
      using qpos by (simp add: field_simps)
    moreover have "(2::rat) powi (bitlen p - 1) / 2 powi bitlen q = 2 powi (d - 1)"
      unfolding d_def by (simp add: power_int_diff)
    ultimately show ?thesis using x by simp
  qed
  have bin: "binade x = (if 2 powi d \<le> \<bar>x\<bar> then d else d - 1)"
    using pq by (simp add: binade_def d_def Let_def)
  show "2 powi binade x \<le> \<bar>x\<bar>"
    using bin lb by (auto split: if_splits)
  show "\<bar>x\<bar> < 2 powi (binade x + 1)"
    using bin ub by (auto split: if_splits)
qed

lemma binade_le:
  assumes "x \<noteq> 0" and "\<bar>x\<bar> < 2 powi (e + 1)"
  shows "binade x \<le> e"
proof (rule ccontr)
  assume "\<not> binade x \<le> e"
  then have "e + 1 \<le> binade x" by simp
  then have "(2::rat) powi (e + 1) \<le> 2 powi binade x"
    by (intro power_int_increasing) auto
  with binade_bounds(1)[OF assms(1)] assms(2) show False by simp
qed

lemma binade_ge:
  assumes "x \<noteq> 0" and "2 powi e \<le> \<bar>x\<bar>"
  shows "e \<le> binade x"
proof (rule ccontr)
  assume "\<not> e \<le> binade x"
  then have "binade x + 1 \<le> e" by simp
  then have "(2::rat) powi (binade x + 1) \<le> 2 powi e"
    by (intro power_int_increasing) auto
  with binade_bounds(2)[OF assms(1)] assms(2) show False by simp
qed

lemma round_even_error: "\<bar>of_int (round_even y) - y\<bar> \<le> 1 / 2"
proof -
  have "of_int \<lfloor>y\<rfloor> \<le> y" "y < of_int \<lfloor>y\<rfloor> + 1" by linarith+
  then show ?thesis
    by (auto simp: round_even_def Let_def)
qed

lemma round_even_of_int: "round_even (of_int m) = m"
  by (simp add: round_even_def)

lemma fl_error:
  assumes "\<bar>x\<bar> < 2 powi (e + 1)" and "- 1022 \<le> e"
  shows "\<bar>fl x - x\<bar> \<le> 2 powi (e - 53)"
proof (cases "x = 0")
  case True
  then show ?thesis by (simp add: fl_def)
next
  case False
  define u :: rat where "u = 2 powi (max (binade x) (- 1022) - 52)"
  have u: "0 < u" by (simp add: u_def)
  have "max (binade x) (- 1022) \<le> e"
    using binade_le[OF False assms(1)] assms(2) by simp
  then have "u \<le> 2 powi (e - 52)"
    unfolding u_def by (intro power_int_increasing) auto
  have flx: "fl x = of_int (round_even (x / u)) * u"
    using False by (simp add: fl_def u_def Let_def)
  have "\<bar>fl x - x\<bar> = \<bar>of_int (round_even (x / u)) - x / u\<bar> * u"
  proof -
    have "fl x - x = (of_int (round_even (x / u)) - x / u) * u"
      using u by (simp add: flx field_simps)
    then show ?thesis using u by (simp add: abs_mult)
  qed
  also have "\<dots> \<le> 1 / 2 * u"
    using round_even_error[of "x / u"] u by (intro mult_right_mono) auto
  also have "\<dots> \<le> 1 / 2 * 2 powi (e - 52)"
    using \<open>u \<le> 2 powi (e - 52)\<close> by simp
  also have "\<dots> = 2 powi (e - 53)"
    using power_int_diff[of "2::rat" "e - 52" 1] by simp
  finally show ?thesis .
qed

lemma fl_of_int:
  assumes "\<bar>n\<bar> < 2 ^ 53"
  shows "fl (of_int n) = of_int n"
proof (cases "n = 0")
  case True
  then show ?thesis by (simp add: fl_def)
next
  case False
  let ?x = "of_int n :: rat"
  have x0: "?x \<noteq> 0" using False by simp
  have "1 \<le> \<bar>n\<bar>" using False by simp
  then have "(1::rat) \<le> \<bar>?x\<bar>" by (metis of_int_1 of_int_abs of_int_le_iff)
  then have b0: "0 \<le> binade ?x"
    using binade_ge[OF x0, of 0] by simp
  have "\<bar>?x\<bar> < 2 ^ 53"
    using assms by (metis of_int_abs of_int_less_iff of_int_numeral of_int_power)
  then have b52: "binade ?x \<le> 52"
    using binade_le[OF x0, of 52] by simp
  define k where "k = nat (52 - binade ?x)"
  have u: "(2::rat) powi (max (binade ?x) (- 1022) - 52) = 1 / 2 ^ k"
  proof -
    have "max (binade ?x) (- 1022) - 52 = - int k"
      using b0 b52 by (simp add: k_def)
    then show ?thesis by (simp add: power_int_minus_divide)
  qed
  have "?x / (1 / 2 ^ k) = of_int (n * 2 ^ k)" by simp
  then have "round_even (?x / (1 / 2 ^ k)) = n * 2 ^ k"
    using round_even_of_int[of "n * 2 ^ k"] by simp
  then show ?thesis
    using x0 by (simp add: fl_def u Let_def)
qed

lemma fl_error_2: "\<bar>x\<bar> < 2 \<Longrightarrow> \<bar>fl x - x\<bar> \<le> 1 / 2 ^ 53"
  using fl_error[of x 0] by (simp add: power_int_minus_divide)

lemma fl_error_1024: "\<bar>x\<bar> < 1024 \<Longrightarrow> \<bar>fl x - x\<bar> \<le> 1 / 2 ^ 44"
  using fl_error[of x 9] by (simp add: power_int_minus_divide)

lemma fl_error_16384: "\<bar>x\<bar> < 16384 \<Longrightarrow> \<bar>fl x - x\<bar> \<le> 1 / 2 ^ 40"
  using fl_error[of x 13] by (simp add: power_int_minus_divide)

subsection \<open>Exact values on the integers of a range\<close>

lemma floor_near:
  fixes s E d :: rat
  assumes "of_int m + d \<le> E + 1 / 2" and "E + 1 / 2 \<le> of_int m + 1 - d" and "\<bar>s - E\<bar> < d"
  shows "\<lfloor>s + 1 / 2\<rfloor> = m"
proof (rule floor_unique)
  show "of_int m \<le> s + 1 / 2" using assms by linarith
  show "s + 1 / 2 < of_int m + 1" using assms by linarith
qed

lemma coprime_1175_402: "coprime (1175::int) 402"
proof -
  have "gcd (1175::int) 402 = 1" by code_simp
  then show ?thesis by (simp only: coprime_iff_gcd_eq_1)
qed

lemma tie_device:
  fixes n :: int
  assumes "0 \<le> n" "n \<le> 4700" "(402 * n + 721450) mod 4700 = 0"
  shows "n = 1175 \<or> n = 3525"
proof -
  have "4700 dvd 402 * n + 721450"
    using assms(3) by (simp add: dvd_eq_mod_eq_0)
  moreover have "(1175::int) dvd 4700" by simp
  ultimately have "1175 dvd 402 * n + 721450"
    by (rule dvd_trans[rotated])
  moreover have "(1175::int) dvd 721450" by simp
  ultimately have "1175 dvd 402 * n"
    using dvd_add_left_iff by blast
  then have "1175 dvd n"
    using coprime_1175_402 by (simp add: coprime_dvd_mult_right_iff)
  then obtain k where k: "n = 1175 * k" by (rule dvdE)
  with assms(1,2) have "0 \<le> k" "k \<le> 4" by simp_all
  then consider "k = 0" | "k = 1" | "k = 2" | "k = 3" | "k = 4" by linarith
  then show ?thesis
    using assms(3) k by cases simp_all
qed

lemma no_tie_ui:
  fixes n :: int
  shows "(4700 * n + 723801) mod 402 \<noteq> 0"
proof
  assume "(4700 * n + 723801) mod 402 = 0"
  then have "402 dvd 4700 * n + 723801" by (simp add: dvd_eq_mod_eq_0)
  moreover have "(2::int) dvd 402" by simp
  ultimately have "2 dvd 4700 * n + 723801" by (rule dvd_trans[rotated])
  then show False by simp
qed

lemmas remap_defs =
  deviceToUI_def uiToDevice_def rangeToFloat_def floatToRange_def
  fsub_def fdiv_def fmul_def fadd_def Math_round_def
  WYZE_COLOR_TEMP_MIN_def WYZE_COLOR_TEMP_MAX_def
  HOMEKIT_COLOR_TEMP_MIN_def HOMEKIT_COLOR_TEMP_MAX_def

lemma fl_4700: "fl 4700 = 4700"
  using fl_of_int[of 4700] by simp

lemma fl_402: "fl 402 = 402"
  using fl_of_int[of 402] by simp

lemma deviceToUI_2975: "deviceToUI 2975 = 254"
  by code_simp

lemma deviceToUI_5325: "deviceToUI 5325 = 455"
  by code_simp

lemma floor_of_quotient:
  fixes K c m :: int and x :: rat
  assumes "0 < c" and "x = of_int K / of_int c" and "m = K div c"
  shows "\<lfloor>x\<rfloor> = m"
  using assms by (simp add: floor_divide_of_int_eq)

lemma quotient_between:
  fixes K c :: int
  assumes "0 < c" and "K mod c \<noteq> 0"
  shows "of_int (K div c) + 1 / of_int c \<le> (of_int K / of_int c :: rat)"
    and "(of_int K / of_int c :: rat) \<le> of_int (K div c) + 1 - 1 / of_int c"
proof -
  define r :: rat where "r = of_int (K mod c) / of_int c"
  have c: "(0::rat) < of_int c" using assms(1) by simp
  have "0 \<le> K mod c" "K mod c < c" using assms(1) by simp_all
  with assms(2) have "1 \<le> K mod c" "K mod c \<le> c - 1" by simp_all
  then have "(1::rat) \<le> of_int (K mod c)" "(of_int (K mod c) :: rat) \<le> of_int c - 1"
    by (metis of_int_1 of_int_le_iff, metis of_int_1 of_int_diff of_int_le_iff)
  then have "1 / of_int c \<le> r" "r \<le> (of_int c - 1) / of_int c"
    unfolding r_def using c by (simp_all add: divide_right_mono)
  moreover have "(of_int c - 1) / of_int c = (1::rat) - 1 / of_int c"
    using c by (simp add: field_simps)
  moreover have "(of_int K / of_int c :: rat) = of_int (K div c) + r"
  proof -
    have "K = c * (K div c) + K mod c" by simp
    then have "(of_int K :: rat) = of_int c * of_int (K div c) + of_int (K mod c)"
      by (metis of_int_add of_int_mult)
    then show ?thesis using c by (simp add: r_def field_simps)
  qed
  ultimately show "of_int (K div c) + 1 / of_int c \<le> (of_int K / of_int c :: rat)"
    and "(of_int K / of_int c :: rat) \<le> of_int (K div c) + 1 - 1 / of_int c"
    by simp_all
qed

lemma deviceToUI_exact:
  fixes v :: int
  assumes "1800 \<le> v" and "v \<le> 6500"
  shows "deviceToUI (of_int v) = of_int \<lfloor>(of_int v - 1800) / 4700 * 402 + 153 + 1 / 2 :: rat\<rfloor>"
proof -
  define a :: rat where "a = (of_int v - 1800) / 4700"
  define q where "q = fl a"
  define p where "p = fl (q * 402)"
  define s where "s = fl (p + 153)"
  define E where "E = a * 402 + 153"
  define K where "K = 402 * (v - 1800) + 721450"
  have a01: "0 \<le> a" "a \<le> 1"
    using assms by (simp_all add: a_def)
  have f1: "fl (of_int v - 1800) = of_int v - 1800"
    using fl_of_int[of "v - 1800"] assms by simp
  have unfold: "deviceToUI (of_int v) = of_int \<lfloor>s + 1 / 2\<rfloor>"
    by (simp add: remap_defs f1 fl_4700 fl_402 s_def p_def q_def a_def)
  have eq: "\<bar>q - a\<bar> \<le> 1 / 9007199254740992"
    using fl_error_2[of a] a01 by (simp add: q_def)
  then have qb: "- 1 \<le> q" "q \<le> 2"
    using a01 by linarith+
  have "\<bar>q * 402\<bar> < 1024"
    using qb by linarith
  then have ep: "\<bar>p - q * 402\<bar> \<le> 1 / 17592186044416"
    using fl_error_1024[of "q * 402"] by (simp add: p_def)
  then have pb: "- 403 \<le> p" "p \<le> 805"
    using qb by linarith+
  have "\<bar>p + 153\<bar> < 1024"
    using pb by linarith
  then have es: "\<bar>s - (p + 153)\<bar> \<le> 1 / 17592186044416"
    using fl_error_1024[of "p + 153"] by (simp add: s_def)
  have tot: "\<bar>s - E\<bar> < 1 / 4700"
    unfolding E_def using eq ep es by linarith
  have EK: "E + 1 / 2 = of_int K / of_int 4700"
    by (simp add: E_def a_def K_def field_simps)
  have fE: "\<lfloor>E + 1 / 2\<rfloor> = K div 4700"
    using EK by (intro floor_of_quotient[of 4700 _ K]) simp_all
  show ?thesis
  proof (cases "K mod 4700 = 0")
    case True
    then have "v - 1800 = 1175 \<or> v - 1800 = 3525"
      using assms by (intro tie_device) (simp_all add: K_def)
    then have "v = 2975 \<or> v = 5325" by auto
    then show ?thesis
      using deviceToUI_2975 deviceToUI_5325 by auto
  next
    case False
    have "\<lfloor>s + 1 / 2\<rfloor> = K div 4700"
      using quotient_between[of 4700 K] False EK tot
      by (intro floor_near[of _ "1 / 4700" E]) simp_all
    then show ?thesis
      using unfold fE by (simp add: E_def a_def)
  qed
qed

lemma uiToDevice_exact:
  fixes v :: int
  assumes "153 \<le> v" and "v \<le> 555"
  shows "uiToDevice (of_int v) = of_int \<lfloor>(of_int v - 153) / 402 * 4700 + 1800 + 1 / 2 :: rat\<rfloor>"
proof -
  define a :: rat where "a = (of_int v - 153) / 402"
  define q where "q = fl a"
  define p where "p = fl (q * 4700)"
  define s where "s = fl (p + 1800)"
  define E where "E = a * 4700 + 1800"
  define K where "K = 4700 * (v - 153) + 723801"
  have a01: "0 \<le> a" "a \<le> 1"
    using assms by (simp_all add: a_def)
  have f1: "fl (of_int v - 153) = of_int v - 153"
    using fl_of_int[of "v - 153"] assms by simp
  have unfold: "uiToDevice (of_int v) = of_int \<lfloor>s + 1 / 2\<rfloor>"
    by (simp add: remap_defs f1 fl_4700 fl_402 s_def p_def q_def a_def)
  have eq: "\<bar>q - a\<bar> \<le> 1 / 9007199254740992"
    using fl_error_2[of a] a01 by (simp add: q_def)
  then have qb: "- 1 \<le> q" "q \<le> 2"
    using a01 by linarith+
  have "\<bar>q * 4700\<bar> < 16384"
    using qb by linarith
  then have ep: "\<bar>p - q * 4700\<bar> \<le> 1 / 1099511627776"
    using fl_error_16384[of "q * 4700"] by (simp add: p_def)
  then have pb: "- 4701 \<le> p" "p \<le> 9401"
    using qb by linarith+
  have "\<bar>p + 1800\<bar> < 16384"
    using pb by linarith
  then have es: "\<bar>s - (p + 1800)\<bar> \<le> 1 / 1099511627776"
    using fl_error_16384[of "p + 1800"] by (simp add: s_def)
  have tot: "\<bar>s - E\<bar> < 1 / 402"
    unfolding E_def using eq ep es by linarith
  have EK: "E + 1 / 2 = of_int K / of_int 402"
    by (simp add: E_def a_def K_def field_simps)
  have fE: "\<lfloor>E + 1 / 2\<rfloor> = K div 402"
    using EK by (intro floor_of_quotient[of 402 _ K]) simp_all
  have "K mod 402 \<noteq> 0"
    unfolding K_def by (rule no_tie_ui)
  then have "\<lfloor>s + 1 / 2\<rfloor> = K div 402"
    using quotient_between[of 402 K] EK tot
    by (intro floor_near[of _ "1 / 402" E]) simp_all
  then show ?thesis
    using unfold fE by (simp add: E_def a_def)
qed

lemma remap_formula:
  "floatToRange (rangeToFloat v smin smax) dmin dmax =
     Math_round (fadd (fmul (fdiv (fsub v smin) (fsub smax smin)) (fsub dmax dmin)) dmin)"
  by (simp add: floatToRange_def rangeToFloat_def)

lemma deviceToUI_formula:
  "deviceToUI x = Math_round (fadd (fmul (fdiv (fsub x 1800) 4700) 402) 153)"
  by (simp add: remap_defs fl_4700 fl_402)

lemma uiToDevice_formula:
  "uiToDevice x = Math_round (fadd (fmul (fdiv (fsub x 153) 402) 4700) 1800)"
  by (simp add: remap_defs fl_4700 fl_402)

lemma boundary_values:
  "deviceToUI 1800 = 153" "deviceToUI 6500 = 555" "uiToDevice 153 = 1800" "uiToDevice 555 = 6500"
  by code_simp+

lemma deviceToUI_round:
  fixes d :: int
  assumes "1800 \<le> d" and "d \<le> 6500"
  shows "deviceToUI (of_int d) = Math_round ((of_int d - 1800) / 4700 * 402 + 153)"
  using deviceToUI_exact[OF assms] by (simp only: Math_round_def)

lemma uiToDevice_round:
  fixes u :: int
  assumes "153 \<le> u" and "u \<le> 555"
  shows "uiToDevice (of_int u) = Math_round ((of_int u - 153) / 402 * 4700 + 1800)"
  using uiToDevice_exact[OF assms] by (simp only: Math_round_def)

lemma updateColorTemp_Num:
  "chars (updateColorTemp pf (Num x) st) ColorTemperature = Some (Num (deviceToUI x))"
  by (simp add: updateColorTemp_def updateValue_def remap_def)

lemma setColorTemperature_Num:
  "remote_writes (snd (setColorTemperature pf (Num x) r st)) = [(''P1502'', Num (uiToDevice x))]"
  by (cases r) (simp_all add: setColorTemperature_def remap_def WYZE_API_COLOR_TEMP_PROPERTY_def)

lemma updateColorTemp_number:
  assumes "to_number pf v = Some x"
  shows "chars (updateColorTemp pf v st) ColorTemperature = Some (Num (deviceToUI x))"
    and "chars (fst (update_properties pf [(''P1502'', v)] st)) ColorTemperature
           = Some (Num (deviceToUI x))"
  using assms
  by (simp_all add: updateColorTemp_def updateValue_def remap_def
      WYZE_API_COLOR_TEMP_PROPERTY_def WYZE_API_BRIGHTNESS_PROPERTY_def)

lemma setColorTemperature_number:
  assumes "to_number pf v = Some x"
  shows "remote_writes (snd (setColorTemperature pf v r st)) = [(''P1502'', Num (uiToDevice x))]"
  using assms
  by (cases r) (simp_all add: setColorTemperature_def remap_def WYZE_API_COLOR_TEMP_PROPERTY_def)

lemma color_temperature_NaN:
  assumes "to_number pf v = None"
  shows "chars (updateColorTemp pf v st) ColorTemperature = Some NaN"
    and "remote_writes (snd (setColorTemperature pf v r st)) = [(''P1502'', NaN)]"
  using assms
  by (cases r; simp add: updateColorTemp_def updateValue_def setColorTemperature_def remap_def
      WYZE_API_COLOR_TEMP_PROPERTY_def)+

text \<open>
  C5. Either colour-temperature conversion is the range remap
  \<open>round(((v - srcMin) / (srcMax - srcMin)) * (dstMax - dstMin) + dstMin)\<close>: the projection
  from the device computes \<open>round(((v - 1800) / 4700) * 402 + 153)\<close> and the write to the
  device \<open>round(((v - 153) / 402) * 4700 + 1800)\<close>, on every finite number in the
  arithmetic of doubles, and for every integer of the source range the result is the
  formula's value in exact arithmetic. The ends of each range map to the ends of the
  other. On whatever value it receives, a number or a string that the runtime converts to
  the number \<open>x\<close>, \<open>updateColorTemp\<close> (called directly or through the loop over the
  property list) pushes the first conversion of \<open>x\<close> to ColorTemperature, and
  \<open>setColorTemperature\<close> writes the second conversion of \<open>x\<close> to property P1502; a
  value that converts to no number gives \<open>NaN\<close> in both.
\<close>

theorem C5_range_remap:
  fixes d u :: int
  assumes "1800 \<le> d" and "d \<le> 6500" and "153 \<le> u" and "u \<le> 555"
    and "to_number pf vd = Some xd" and "to_number pf vu = Some xu"
    and "to_number pf vn = None"
  shows "floatToRange (rangeToFloat x smin smax) dmin dmax =
           Math_round (fadd (fmul (fdiv (fsub x smin) (fsub smax smin)) (fsub dmax dmin)) dmin)
         \<and> deviceToUI x = Math_round (fadd (fmul (fdiv (fsub x 1800) 4700) 402) 153)
         \<and> uiToDevice x = Math_round (fadd (fmul (fdiv (fsub x 153) 402) 4700) 1800)
         \<and> deviceToUI (of_int d) = Math_round ((of_int d - 1800) / 4700 * 402 + 153)
         \<and> uiToDevice (of_int u) = Math_round ((of_int u - 153) / 402 * 4700 + 1800)
         \<and> deviceToUI 1800 = 153 \<and> deviceToUI 6500 = 555
         \<and> uiToDevice 153 = 1800 \<and> uiToDevice 555 = 6500
         \<and> chars (updateColorTemp pf (Num x) st) ColorTemperature = Some (Num (deviceToUI x))
         \<and> remote_writes (snd (setColorTemperature pf (Num x) r st))
             = [(''P1502'', Num (uiToDevice x))]
         \<and> chars (updateColorTemp pf vd st) ColorTemperature = Some (Num (deviceToUI xd))
         \<and> chars (fst (update_properties pf [(''P1502'', vd)] st)) ColorTemperature
             = Some (Num (deviceToUI xd))
         \<and> remote_writes (snd (setColorTemperature pf vu r st))
             = [(''P1502'', Num (uiToDevice xu))]
         \<and> chars (updateColorTemp pf vn st) ColorTemperature = Some NaN
         \<and> remote_writes (snd (setColorTemperature pf vn r st)) = [(''P1502'', NaN)]"
proof -
  note facts = remap_formula deviceToUI_formula uiToDevice_formula
    deviceToUI_round[OF assms(1,2)] uiToDevice_round[OF assms(3,4)]
    boundary_values updateColorTemp_Num setColorTemperature_Num
    updateColorTemp_number[OF assms(5)] setColorTemperature_number[OF assms(6)]
    color_temperature_NaN[OF assms(7)]
  show ?thesis
    by (intro conjI) (rule facts)+
qed

text \<open>
  C5 on the sample platform: the device value 2700 and the UI value 230 map to each other;
  the string 2700 from a property list puts 230 on ColorTemperature, the number 230 from
  HomeKit is written as 2700, and \<open>undefined\<close> gives \<open>NaN\<close>.
\<close>

theorem C5_range_remap_witness:
  "(1800::int) \<le> 2700 \<and> (2700::int) \<le> 6500 \<and> (153::int) \<le> 230 \<and> (230::int) \<le> 555
   \<and> to_number sample_platform (Str ''2700'') = Some 2700
   \<and> to_number sample_platform (Num 230) = Some 230
   \<and> to_number sample_platform Undefined = None
   \<and> deviceToUI 2700 = 230 \<and> uiToDevice 230 = 2700
   \<and> chars (updateColorTemp sample_platform (Str ''2700'') constructor) ColorTemperature
       = Some (Num 230)
   \<and> chars (fst (update_properties sample_platform [(''P1502'', Str ''2700'')] constructor))
         ColorTemperature = Some (Num 230)
   \<and> remote_writes (snd (setColorTemperature sample_platform (Num 230) Resolves constructor))
       = [(''P1502'', Num 2700)]
   \<and> chars (updateColorTemp sample_platform Undefined constructor) ColorTemperature = Some NaN"
proof -
  have r: "Math_round ((2700 - 1800) / 4700 * 402 + 153) = 230"
    "Math_round ((230 - 153) / 402 * 4700 + 1800) = 2700"
    by code_simp+
  have s: "to_number sample_platform (Str ''2700'') = Some 2700"
    by (simp add: sample_platform_def)
  have n: "to_number sample_platform (Num 230) = Some 230"
    and u: "to_number sample_platform Undefined = None"
    by simp_all
  have b: "(1800::int) \<le> 2700" "(2700::int) \<le> 6500" "(153::int) \<le> 230" "(230::int) \<le> 555"
    by simp_all
  show ?thesis
    using C5_range_remap[OF b s n u, where x = 0 and smin = 0 and smax = 0 and dmin = 0
        and dmax = 0 and st = constructor and r = Resolves] r s n u
    by simp
qed

lemma floor_bounds:
  fixes x :: rat
  shows "of_int \<lfloor>x\<rfloor> \<le> x" and "x < of_int \<lfloor>x\<rfloor> + 1"
  by linarith+

text \<open>
  C6. For every integer \<open>v\<close> from 1800 to 6500, converting to the UI range, back to the
  device range and to the UI range again gives a value within 1 of the first conversion;
  in fact the same value.
\<close>

theorem C6_remap_round_trip:
  fixes v :: int
  assumes "1800 \<le> v" and "v \<le> 6500"
  shows "\<bar>deviceToUI (uiToDevice (deviceToUI (of_int v))) - deviceToUI (of_int v)\<bar> \<le> 1
         \<and> deviceToUI (uiToDevice (deviceToUI (of_int v))) = deviceToUI (of_int v)"
proof -
  define a :: rat where "a = (of_int v - 1800) / 4700"
  define U where "U = \<lfloor>a * 402 + 153 + 1 / 2\<rfloor>"
  define b :: rat where "b = (of_int U - 153) / 402"
  define D where "D = \<lfloor>b * 4700 + 1800 + 1 / 2\<rfloor>"
  define c :: rat where "c = (of_int D - 1800) / 4700"
  have "(of_int 1800 :: rat) \<le> of_int v" "(of_int v :: rat) \<le> of_int 6500"
    using assms by (simp_all only: of_int_le_iff)
  then have a: "0 \<le> a" "a \<le> 1"
    by (simp_all add: a_def)
  have 1: "deviceToUI (of_int v) = of_int U"
    using deviceToUI_exact[OF assms] by (simp add: U_def a_def)
  have Ub: "(of_int U :: rat) \<le> a * 402 + 153 + 1 / 2" "a * 402 + 153 + 1 / 2 < (of_int U :: rat) + 1"
    unfolding U_def by (rule floor_bounds)+
  have "(of_int 152 :: rat) < of_int U" "(of_int U :: rat) < of_int 556"
    using Ub a by simp_all
  then have "152 < U" "U < 556"
    by (simp_all only: of_int_less_iff)
  then have U: "153 \<le> U" "U \<le> 555" by simp_all
  have Ueq: "(of_int U :: rat) = 153 + 402 * b"
    by (simp add: b_def field_simps)
  have 2: "uiToDevice (of_int U) = of_int D"
    using uiToDevice_exact[OF U] by (simp add: D_def b_def)
  have Db: "(of_int D :: rat) \<le> b * 4700 + 1800 + 1 / 2" "b * 4700 + 1800 + 1 / 2 < (of_int D :: rat) + 1"
    unfolding D_def by (rule floor_bounds)+
  have bb: "0 \<le> b" "b \<le> 1"
    using U Ueq by simp_all
  have "(of_int 1799 :: rat) < of_int D" "(of_int D :: rat) < of_int 6501"
    using Db bb by simp_all
  then have "1799 < D" "D < 6501"
    by (simp_all only: of_int_less_iff)
  then have Dr: "1800 \<le> D" "D \<le> 6500" by simp_all
  have Deq: "(of_int D :: rat) = 1800 + 4700 * c"
    by (simp add: c_def field_simps)
  have "\<lfloor>c * 402 + 153 + 1 / 2\<rfloor> = U"
  proof (rule floor_unique)
    show "of_int U \<le> c * 402 + 153 + 1 / 2"
      using Db Ueq Deq by linarith
    show "c * 402 + 153 + 1 / 2 < of_int U + 1"
      using Db Ueq Deq by linarith
  qed
  then have 3: "deviceToUI (of_int D) = of_int U"
    using deviceToUI_exact[OF Dr] by (simp add: c_def)
  show ?thesis
    by (simp add: 1 2 3)
qed

text \<open>
  C6 at 2000: the UI value is 170, the device value it gives back is 1999, and that maps
  to 170 again.
\<close>

theorem C6_remap_round_trip_witness:
  "(1800::int) \<le> 2000 \<and> (2000::int) \<le> 6500
   \<and> deviceToUI 2000 = 170 \<and> uiToDevice 170 = 1999 \<and> deviceToUI 1999 = 170
   \<and> \<bar>deviceToUI (uiToDevice (deviceToUI 2000)) - deviceToUI 2000\<bar> \<le> 1"
proof -
  have "deviceToUI 2000 = 170" "uiToDevice 170 = 1999" "deviceToUI 1999 = 170"
    by code_simp+
  then show ?thesis
    using C6_remap_round_trip[of 2000] by simp
qed

end
